theory Spec2Isabelle
  imports Main
begin

section \<open>The data-access layer of TrendScouter (src/lib/api.ts)\<close>

text \<open>
  The module keeps a process-wide cache, reads its settings from the build environment and
  from \<open>localStorage\<close>, serves canned fixtures in mock mode and otherwise talks to a
  backend through \<open>fetch\<close> with a retry loop and an abort timer. Everything the module
  reads or changes is a field of the record \<open>world\<close>; every function takes the world and
  returns the new one. A thrown \<open>Error\<close> is the left summand of the result.
\<close>

subsection \<open>JavaScript values\<close>

text \<open>
  Payloads are typed \<open>any\<close> in the cache and come out of \<open>response.json()\<close> unvalidated,
  so they are JSON values. Numbers are integers here (fractions, NaN and -0 are left out).
\<close>

datatype json =
    JNull
  | JBool bool
  | JNum int
  | JStr string
  | JArr "json list"
  | JObj "(string \<times> json) list"

text \<open>What \<open>if (x)\<close> tests: \<open>null\<close>, \<open>false\<close>, \<open>0\<close> and \<open>""\<close> are falsy, arrays and objects never.\<close>

fun truthy :: "json \<Rightarrow> bool" where
  "truthy JNull = False"
| "truthy (JBool b) = b"
| "truthy (JNum n) = (n \<noteq> 0)"
| "truthy (JStr s) = (s \<noteq> [])"
| "truthy (JArr xs) = True"
| "truthy (JObj kvs) = True"

text \<open>
  An \<open>Error\<close> object. Everything thrown inside the module is one: \<open>new Error(...)\<close>, the
  \<open>TypeError\<close> or \<open>DOMException\<close> of a rejected \<open>fetch\<close>, the \<open>SyntaxError\<close> of
  \<open>response.json()\<close>; so \<open>error instanceof Error\<close> holds wherever the source asks.
\<close>

record js_error =
  name :: string
  message :: string

definition Error :: "string \<Rightarrow> js_error" where
  "Error msg = \<lparr>name = ''Error'', message = msg\<rparr>"

subsection \<open>Strings\<close>

definition startsWith :: "string \<Rightarrow> string \<Rightarrow> bool" where
  "startsWith s p = (take (length p) s = p)"

fun str_includes :: "string \<Rightarrow> string \<Rightarrow> bool" where
  "str_includes [] p = (p = [])"
| "str_includes (c # cs) p = (startsWith (c # cs) p \<or> str_includes cs p)"

text \<open>\<open>s.split(sep)\<close> for a separator of one character: never empty, \<open>"".split("/")\<close> is \<open>[""]\<close>.\<close>

fun split_on :: "char \<Rightarrow> string \<Rightarrow> string list" where
  "split_on sep [] = [[]]"
| "split_on sep (c # cs) =
     (if c = sep then [] # split_on sep cs
      else (case split_on sep cs of
              [] \<Rightarrow> [[c]]
            | seg # segs \<Rightarrow> (c # seg) # segs))"

text \<open>Indexing an array: \<open>undefined\<close> out of range.\<close>

definition at_index :: "'a list \<Rightarrow> nat \<Rightarrow> 'a option" where
  "at_index xs i = (if i < length xs then Some (xs ! i) else None)"

text \<open>
  A number inside a template literal: its decimal digits, with a sign when negative. That
  is what JavaScript prints for the integers a double holds exactly (up to \<open>2^53\<close> in
  magnitude); beyond them, and for fractions, NaN and the infinities, the model says
  nothing about the source.
\<close>

definition digit :: "nat \<Rightarrow> char" where
  "digit d = ''0123456789'' ! d"

fun string_of_nat :: "nat \<Rightarrow> string" where
  "string_of_nat n =
     (if n < 10 then [digit n] else string_of_nat (n div 10) @ [digit (n mod 10)])"

declare string_of_nat.simps [simp del]

definition string_of_int :: "int \<Rightarrow> string" where
  "string_of_int i =
     (if i < 0 then CHR ''-'' # string_of_nat (nat (- i)) else string_of_nat (nat i))"

subsection \<open>Constants, cache entries, responses, the world\<close>

definition API_TIMEOUT :: int where
  "API_TIMEOUT = 10000"

definition MAX_RETRIES :: nat where
  "MAX_RETRIES = 2"

definition CACHE_DURATION :: int where
  "CACHE_DURATION = 5 * 60 * 1000"

record cache_entry =
  data :: json
  timestamp :: int

text \<open>
  A \<open>Response\<close>: \<open>body\<close> is what \<open>response.json()\<close> settles to, the decoded value or the
  error it rejects with.
\<close>

record response =
  status :: nat
  statusText :: string
  body :: "js_error + json"

definition ok :: "response \<Rightarrow> bool" where
  "ok r = (200 \<le> status r \<and> status r \<le> 299)"

text \<open>How one call of \<open>fetch\<close> settles when nothing aborts it.\<close>

datatype fetch_result = Responded response | Rejected js_error

text \<open>The effects a caller can observe from outside, in the order they happen.\<close>

datatype event =
    NetFetch string
  | MockAccess string
  | Sleep nat
  | CacheSet string

text \<open>
  \<^item> \<open>cache\<close> is the module-level \<open>Map\<close>; \<open>now\<close> is \<open>Date.now()\<close> in milliseconds;
  \<^item> \<open>env_base_url\<close> is \<open>import.meta.env.VITE_API_BASE_URL\<close> (\<open>None\<close> when undefined),
    \<open>localStorage\<close> maps a key to its item (\<open>getItem\<close> gives \<open>null\<close> for a missing key);
  \<^item> the \<open>mock...\<close> fields are the imported JSON fixtures, which are arrays (the trends
    fixture is put together from its fields below);
  \<^item> \<open>network k\<close> says how the \<open>k\<close>-th call of \<open>fetch\<close> goes when left alone: the time it
    takes and how it settles; \<open>fetches\<close> counts the calls made so far;
  \<^item> \<open>mock_delay\<close> is the time the simulated latency of a mock access takes
    (\<open>200 + Math.random() * 300\<close> in the source);
  \<^item> \<open>abort_message\<close> is the message the runtime gives the \<open>AbortError\<close> of an aborted
    request (the source looks at its name only);
  \<^item> \<open>trace\<close> logs the effects.
\<close>

record world =
  cache :: "string \<rightharpoonup> cache_entry"
  now :: int
  env_base_url :: "string option"
  localStorage :: "string \<rightharpoonup> string"
  mockTrends_0 :: json
  mockTrends_1 :: json
  mockTrends_2 :: json
  mockTrends_rest :: "json list"
  mockSubtrendsDefenseTech :: "json list"
  mockSubtrendsClimateSolutions :: "json list"
  mockStartupsMilitaryDrones :: "json list"
  mockStartupsCarbon :: "json list"
  network :: "nat \<Rightarrow> nat \<times> fetch_result"
  fetches :: nat
  mock_delay :: nat
  abort_message :: string
  trace :: "event list"

text \<open>
  Modelled from the spec: the trends fixture \<open>mocks/trends.json\<close>, which is not among the
  sources. The spec has \<open>fetchTrends(3)\<close> return exactly 3 mock trend records, so the
  fixture holds at least three records: three fields for them and a list for the rest.
\<close>

definition mockTrends :: "world \<Rightarrow> json list" where
  "mockTrends w = mockTrends_0 w # mockTrends_1 w # mockTrends_2 w # mockTrends_rest w"

subsection \<open>API configuration\<close>

text \<open>\<open>!x\<close> for \<open>x : string | null | undefined\<close>: true of a missing value and of \<open>""\<close>.\<close>

definition falsy_str :: "string option \<Rightarrow> bool" where
  "falsy_str x = (case x of None \<Rightarrow> True | Some s \<Rightarrow> s = [])"

text \<open>\<open>a || b\<close>: \<open>a\<close> when it is truthy, else \<open>b\<close>, whatever \<open>b\<close> is.\<close>

definition or_else :: "string option \<Rightarrow> string option \<Rightarrow> string option" where
  "or_else a b = (if falsy_str a then b else a)"

definition getApiBaseUrl :: "world \<Rightarrow> string option" where
  "getApiBaseUrl w =
     or_else (or_else (env_base_url w) (localStorage w ''apiBaseUrl'')) None"

definition shouldUseMocks :: "world \<Rightarrow> bool" where
  "shouldUseMocks w =
     (falsy_str (getApiBaseUrl w) \<or> localStorage w ''useMocks'' = Some ''true'')"

subsection \<open>Cache utilities\<close>

definition getCacheKey :: "string \<Rightarrow> string" where
  "getCacheKey endpoint = ''api:'' @ endpoint"

text \<open>Returns \<open>null\<close> or the stored payload, and deletes an entry it finds expired.\<close>

definition getCachedData :: "string \<Rightarrow> world \<Rightarrow> json \<times> world" where
  "getCachedData key w =
     (case cache w key of
        None \<Rightarrow> (JNull, w)
      | Some cached \<Rightarrow>
          if now w - timestamp cached > CACHE_DURATION
          then (JNull, w\<lparr>cache := (cache w)(key := None)\<rparr>)
          else (data cached, w))"

definition setCachedData :: "string \<Rightarrow> json \<Rightarrow> world \<Rightarrow> world" where
  "setCachedData key d w =
     w\<lparr>cache := (cache w)(key \<mapsto> \<lparr>data = d, timestamp = now w\<rparr>),
       trace := trace w @ [CacheSet key]\<rparr>"

definition clearCache :: "world \<Rightarrow> world" where
  "clearCache w = w\<lparr>cache := Map.empty\<rparr>"

subsection \<open>Mock data\<close>

text \<open>
  The simulated delay passes first; then the endpoint is routed by the three tests of the
  source, in their order, each falling through to the next when its inner tests fail.
\<close>

definition route_startups :: "string \<Rightarrow> world \<Rightarrow> js_error + json" where
  "route_startups endpoint w =
     (if str_includes endpoint ''/startups'' \<and>
         at_index (split_on CHR ''/'' endpoint) 2 = Some ''military-drones''
      then Inr (JArr (mockStartupsMilitaryDrones w))
      else if str_includes endpoint ''/startups'' \<and>
         at_index (split_on CHR ''/'' endpoint) 2 = Some ''carbon-capture''
      then Inr (JArr (mockStartupsCarbon w))
      else Inl (Error (''Mock data not found for endpoint: '' @ endpoint)))"

definition route_subtrends :: "string \<Rightarrow> world \<Rightarrow> js_error + json" where
  "route_subtrends endpoint w =
     (if str_includes endpoint ''/subtrends'' \<and>
         at_index (split_on CHR ''/'' endpoint) 2 = Some ''defense-tech''
      then Inr (JArr (mockSubtrendsDefenseTech w))
      else if str_includes endpoint ''/subtrends'' \<and>
         at_index (split_on CHR ''/'' endpoint) 2 = Some ''climate-solutions''
      then Inr (JArr (mockSubtrendsClimateSolutions w))
      else route_startups endpoint w)"

definition route_mock :: "string \<Rightarrow> world \<Rightarrow> js_error + json" where
  "route_mock endpoint w =
     (if startsWith endpoint ''/trends'' \<and>
         (str_includes endpoint ''limit=3'' \<or> endpoint = ''/trends'')
      then Inr (JArr (take 3 (mockTrends w)))
      else route_subtrends endpoint w)"

definition getMockData :: "string \<Rightarrow> world \<Rightarrow> (js_error + json) \<times> world" where
  "getMockData endpoint w =
     (let w1 = w\<lparr>now := now w + int (mock_delay w),
                 trace := trace w @ [MockAccess endpoint]\<rparr>
      in (route_mock endpoint w1, w1))"

subsection \<open>HTTP client with retry and timeout\<close>

text \<open>
  The \<open>AbortController\<close> and the timer of one call of \<open>fetchWithRetry\<close>: \<open>timer\<close> is
  the time at which the pending \<open>setTimeout\<close> callback fires (\<open>None\<close> once it has fired
  or was cleared), \<open>aborted\<close> is \<open>controller.signal.aborted\<close>.
\<close>

record controller =
  timer :: "int option"
  aborted :: bool

definition setTimeout_abort :: "world \<Rightarrow> controller" where
  "setTimeout_abort w = \<lparr>timer = Some (now w + API_TIMEOUT), aborted = False\<rparr>"

definition clearTimeout :: "controller \<Rightarrow> controller" where
  "clearTimeout c = c\<lparr>timer := None\<rparr>"

definition AbortError :: "string \<Rightarrow> js_error" where
  "AbortError msg = \<lparr>name = ''AbortError'', message = msg\<rparr>"

text \<open>
  \<open>await fetch(url, {signal})\<close>. A signal that is already aborted rejects the call at
  once. Otherwise the request runs for the time the network takes, unless the deadline of
  the timer is reached by then: then the signal aborts at the deadline and the call
  rejects with an \<open>AbortError\<close>.
\<close>

definition fetch :: "string \<Rightarrow> controller \<Rightarrow> world \<Rightarrow> fetch_result \<times> controller \<times> world" where
  "fetch url c w =
     (let w1 = w\<lparr>fetches := Suc (fetches w), trace := trace w @ [NetFetch url]\<rparr>;
          (d, r) = network w (fetches w)
      in if aborted c then (Rejected (AbortError (abort_message w)), c, w1)
         else (case timer c of
                 Some deadline \<Rightarrow>
                   if deadline \<le> now w + int d
                   then (Rejected (AbortError (abort_message w)),
                         c\<lparr>timer := None, aborted := True\<rparr>,
                         w1\<lparr>now := max (now w) deadline\<rparr>)
                   else (r, c, w1\<lparr>now := now w + int d\<rparr>)
               | None \<Rightarrow> (r, c, w1\<lparr>now := now w + int d\<rparr>)))"

text \<open>\<open>await new Promise(resolve => setTimeout(resolve, ms))\<close>: the abort timer may fire meanwhile.\<close>

definition sleep :: "nat \<Rightarrow> controller \<Rightarrow> world \<Rightarrow> controller \<times> world" where
  "sleep ms c w =
     (let w1 = w\<lparr>now := now w + int ms, trace := trace w @ [Sleep ms]\<rparr>
      in (case timer c of
            Some deadline \<Rightarrow>
              if deadline \<le> now w1 then (c\<lparr>timer := None, aborted := True\<rparr>, w1)
              else (c, w1)
          | None \<Rightarrow> (c, w1)))"

text \<open>The test of the \<open>catch\<close> block that ends the loop.\<close>

definition no_retry :: "js_error \<Rightarrow> bool" where
  "no_retry e = (name e = ''AbortError'' \<or> str_includes (message e) ''HTTP 4'')"

text \<open>
  The \<open>try\<close> block of one iteration: the request, \<open>clearTimeout\<close> once a response is
  there, and the \<open>throw\<close> for a response that is not ok.
\<close>

definition try_fetch ::
  "string \<Rightarrow> controller \<Rightarrow> world \<Rightarrow> (js_error + response) \<times> controller \<times> world" where
  "try_fetch url c w =
     (case fetch url c w of
        (Rejected e, c1, w1) \<Rightarrow> (Inl e, c1, w1)
      | (Responded r, c1, w1) \<Rightarrow>
          if \<not> ok r
          then (Inl (Error (''HTTP '' @ string_of_nat (status r) @ '': '' @ statusText r)),
                clearTimeout c1, w1)
          else (Inr r, clearTimeout c1, w1))"

text \<open>
  The \<open>for\<close> loop from iteration \<open>attempt\<close> on, with the \<open>catch\<close> block. It yields \<open>Inr\<close>
  the response when an iteration returns one, and \<open>Inl lastError\<close> when the loop is left
  by \<open>break\<close> or by its bound.
\<close>

function retry_loop ::
  "string \<Rightarrow> nat \<Rightarrow> js_error option \<Rightarrow> controller \<Rightarrow> world
     \<Rightarrow> (js_error option + response) \<times> controller \<times> world" where
  "retry_loop url attempt lastError c w =
     (if attempt \<le> MAX_RETRIES then
        (case try_fetch url c w of
           (Inr r, c1, w1) \<Rightarrow> (Inr r, c1, w1)
         | (Inl e, c1, w1) \<Rightarrow>
             if no_retry e then (Inl (Some e), c1, w1)
             else if attempt < MAX_RETRIES then
               (case sleep (2 ^ attempt * 1000) c1 w1 of
                  (c2, w2) \<Rightarrow> retry_loop url (Suc attempt) (Some e) c2 w2)
             else retry_loop url (Suc attempt) (Some e) c1 w1)
      else (Inl lastError, c, w))"
  by pat_completeness auto
termination
  by (relation "measure (\<lambda>(url, attempt, lastError, c, w). Suc MAX_RETRIES - attempt)") auto

declare retry_loop.simps [simp del]

text \<open>\<open>lastError || new Error('Request failed')\<close>, the value thrown after the loop.\<close>

definition last_or_generic :: "js_error option \<Rightarrow> js_error" where
  "last_or_generic lastError =
     (case lastError of Some e \<Rightarrow> e | None \<Rightarrow> Error ''Request failed'')"

text \<open>
  The timer is armed once, before the loop. After the loop \<open>clearTimeout\<close> runs once more
  and the controller is dropped, so only the world is handed back.
\<close>

definition fetchWithRetry :: "string \<Rightarrow> world \<Rightarrow> (js_error + response) \<times> world" where
  "fetchWithRetry url w =
     (case retry_loop url 0 None (setTimeout_abort w) w of
        (Inr r, c, w1) \<Rightarrow> (Inr r, w1)
      | (Inl lastError, c, w1) \<Rightarrow> (Inl (last_or_generic lastError), w1))"

subsection \<open>Main API functions\<close>

text \<open>
  The three query functions of the source have the same body up to the endpoint and the
  resource named in the error message, so the body is written once: \<open>via_mock\<close> and
  \<open>via_network\<close> are the two fetching branches of the \<open>try\<close> block, \<open>fresh\<close> is the
  \<open>try\<close> block, \<open>query\<close> is the function body with its cache check and its \<open>catch\<close>.
  The call of \<open>console.error\<close> in the \<open>catch\<close> is left out.
\<close>

definition via_mock :: "string \<Rightarrow> string \<Rightarrow> world \<Rightarrow> (js_error + json) \<times> world" where
  "via_mock endpoint cacheKey w =
     (case getMockData endpoint w of
        (Inl e, w1) \<Rightarrow> (Inl e, w1)
      | (Inr d, w1) \<Rightarrow> (Inr d, setCachedData cacheKey d w1))"

definition via_network :: "string \<Rightarrow> string \<Rightarrow> string \<Rightarrow> world \<Rightarrow> (js_error + json) \<times> world" where
  "via_network baseUrl endpoint cacheKey w =
     (case fetchWithRetry (baseUrl @ endpoint) w of
        (Inl e, w1) \<Rightarrow> (Inl e, w1)
      | (Inr r, w1) \<Rightarrow>
          (case body r of
             Inl e \<Rightarrow> (Inl e, w1)
           | Inr d \<Rightarrow> (Inr d, setCachedData cacheKey d w1)))"

definition fresh :: "string \<Rightarrow> string \<Rightarrow> world \<Rightarrow> (js_error + json) \<times> world" where
  "fresh endpoint cacheKey w =
     (if shouldUseMocks w then via_mock endpoint cacheKey w
      else if falsy_str (getApiBaseUrl w)
        then (Inl (Error ''API base URL not configured''), w)
      else via_network (the (getApiBaseUrl w)) endpoint cacheKey w)"

definition query :: "string \<Rightarrow> string \<Rightarrow> world \<Rightarrow> (js_error + json) \<times> world" where
  "query resource endpoint w =
     (case getCachedData (getCacheKey endpoint) w of
        (cached, w1) \<Rightarrow>
          if truthy cached then (Inr cached, w1)
          else (case fresh endpoint (getCacheKey endpoint) w1 of
                  (Inr d, w2) \<Rightarrow> (Inr d, w2)
                | (Inl e, w2) \<Rightarrow>
                    (Inl (Error (''Failed to fetch '' @ resource @ '': '' @ message e)), w2)))"

text \<open>
  The endpoints. \<open>limit\<close> is \<open>None\<close> when the argument is left out; the test \<open>limit ? ... : ...\<close>
  drops a limit of zero as well; the default of \<open>fetchStartups\<close> is 3.
\<close>

definition trends_endpoint :: "int option \<Rightarrow> string" where
  "trends_endpoint limit =
     ''/trends'' @
       (case limit of
          None \<Rightarrow> []
        | Some n \<Rightarrow> if n \<noteq> 0 then ''?limit='' @ string_of_int n else [])"

definition subtrends_endpoint :: "string \<Rightarrow> string" where
  "subtrends_endpoint trendId = ''/trends/'' @ trendId @ ''/subtrends''"

definition startups_endpoint :: "string \<Rightarrow> int option \<Rightarrow> string" where
  "startups_endpoint subtrendId limit =
     ''/subtrends/'' @ subtrendId @ ''/startups?limit='' @
       string_of_int (case limit of None \<Rightarrow> 3 | Some n \<Rightarrow> n)"

definition fetchTrends :: "int option \<Rightarrow> world \<Rightarrow> (js_error + json) \<times> world" where
  "fetchTrends limit w = query ''trends'' (trends_endpoint limit) w"

definition fetchSubtrends :: "string \<Rightarrow> world \<Rightarrow> (js_error + json) \<times> world" where
  "fetchSubtrends trendId w = query ''subtrends'' (subtrends_endpoint trendId) w"

definition fetchStartups :: "string \<Rightarrow> int option \<Rightarrow> world \<Rightarrow> (js_error + json) \<times> world" where
  "fetchStartups subtrendId limit w =
     query ''startups'' (startups_endpoint subtrendId limit) w"

subsection \<open>Utility functions for settings\<close>

record connection =
  success :: bool
  latency :: "int option"
  error :: "string option"

definition failed :: "string \<Rightarrow> connection" where
  "failed msg = \<lparr>success = False, latency = None, error = Some msg\<rparr>"

definition test_mock :: "int \<Rightarrow> world \<Rightarrow> connection \<times> world" where
  "test_mock startTime w =
     (case getMockData ''/trends?limit=1'' w of
        (Inl e, w1) \<Rightarrow> (failed (message e), w1)
      | (Inr d, w1) \<Rightarrow>
          (\<lparr>success = True, latency = Some (now w1 - startTime), error = None\<rparr>, w1))"

definition test_network :: "string \<Rightarrow> int \<Rightarrow> world \<Rightarrow> connection \<times> world" where
  "test_network baseUrl startTime w =
     (case fetchWithRetry (baseUrl @ ''/trends?limit=1'') w of
        (Inl e, w1) \<Rightarrow> (failed (message e), w1)
      | (Inr r, w1) \<Rightarrow>
          (\<lparr>success = True, latency = Some (now w1 - startTime), error = None\<rparr>, w1))"

definition testConnection :: "world \<Rightarrow> connection \<times> world" where
  "testConnection w =
     (if shouldUseMocks w then test_mock (now w) w
      else if falsy_str (getApiBaseUrl w)
        then (failed ''API base URL not configured'', w)
      else test_network (the (getApiBaseUrl w)) (now w) w)"

subsection \<open>Sample worlds\<close>

text \<open>
  Concrete worlds on which the theorems below are run. \<open>mock_world\<close> has no base URL
  configured and an empty cache; \<open>net_world nw\<close> has a base URL and the network \<open>nw\<close>.
\<close>

definition mock_world :: world where
  "mock_world =
     \<lparr>cache = Map.empty, now = 0, env_base_url = None, localStorage = Map.empty,
      mockTrends_0 = JStr ''ai'', mockTrends_1 = JStr ''defense-tech'',
      mockTrends_2 = JStr ''climate-solutions'', mockTrends_rest = [JStr ''space''],
      mockSubtrendsDefenseTech = [JStr ''military-drones'', JStr ''cyber-defense''],
      mockSubtrendsClimateSolutions = [JStr ''carbon-capture''],
      mockStartupsMilitaryDrones = [JStr ''skyguard'', JStr ''aerodefend''],
      mockStartupsCarbon = [JStr ''carbonfix''],
      network = (\<lambda>k. (0, Rejected \<lparr>name = ''TypeError'', message = ''Failed to fetch''\<rparr>)),
      fetches = 0, mock_delay = 250, abort_message = ''signal is aborted without reason'',
      trace = []\<rparr>"

definition net_world :: "(nat \<Rightarrow> nat \<times> fetch_result) \<Rightarrow> world" where
  "net_world nw = mock_world\<lparr>env_base_url := Some ''https://api.test'', network := nw\<rparr>"

definition http :: "nat \<Rightarrow> string \<Rightarrow> json \<Rightarrow> fetch_result" where
  "http code text payload = Responded \<lparr>status = code, statusText = text, body = Inr payload\<rparr>"

text \<open>Every request is answered after 100 ms with a 503.\<close>

definition nw_unavailable :: "nat \<Rightarrow> nat \<times> fetch_result" where
  "nw_unavailable k = (100, http 503 ''Service Unavailable'' JNull)"



text \<open>A gateway that answers 502 and quotes the status of its upstream in the status text.\<close>

definition nw_gateway :: "nat \<Rightarrow> nat \<times> fetch_result" where
  "nw_gateway k = (100, http 502 ''Upstream sent HTTP 404'' JNull)"

text \<open>A 500 after 100 ms, then a request that takes 20 seconds to be answered with a 500.\<close>

definition nw_slow_second :: "nat \<Rightarrow> nat \<times> fetch_result" where
  "nw_slow_second k =
     (if k = 1 then (20000, http 500 ''Internal Server Error'' JNull)
      else (100, http 500 ''Internal Server Error'' JNull))"

text \<open>A backend whose body is the JSON value \<open>null\<close>.\<close>

definition nw_null :: "nat \<Rightarrow> nat \<times> fetch_result" where
  "nw_null k = (100, http 200 ''OK'' JNull)"

text \<open>A backend that answers with one trend.\<close>

definition nw_ok :: "nat \<Rightarrow> nat \<times> fetch_result" where
  "nw_ok k = (100, http 200 ''OK'' (JArr [JStr ''ai'']))"

text \<open>
  A backend payload of one trend was cached under \<open>api:/trends\<close>; then the mock flag was
  switched on in the settings.
\<close>

definition switched_world :: world where
  "switched_world =
     (snd (fetchTrends None (net_world nw_ok)))\<lparr>localStorage := [''useMocks'' \<mapsto> ''true'']\<rparr>"

text \<open>The cache key of the trends endpoint without a limit, filled at time 0.\<close>

definition cached_world :: "json \<Rightarrow> world" where
  "cached_world v = setCachedData ''api:/trends'' v mock_world"

section \<open>Supporting lemmas\<close>

lemmas world_defs = mock_world_def net_world_def http_def cached_world_def

lemmas client_defs =
  fetchWithRetry_def try_fetch_def fetch_def sleep_def setTimeout_abort_def clearTimeout_def
  no_retry_def Error_def ok_def last_or_generic_def API_TIMEOUT_def MAX_RETRIES_def
  digit_def startsWith_def

subsection \<open>Strings\<close>




subsection \<open>One request\<close>

lemma fetch_effects:
  assumes "fetch url c w = (out, c1, w1)"
  shows "fetches w1 = Suc (fetches w)" and "trace w1 = trace w @ [NetFetch url]"
    and "cache w1 = cache w"
  using assms
  by (auto simp: fetch_def Let_def split: prod.splits if_splits option.splits)


lemma sleep_cache: "sleep ms c w = (c', w') \<Longrightarrow> cache w' = cache w"
  by (auto simp: sleep_def Let_def split: option.splits if_splits)

lemma try_fetch_cache: "try_fetch url c w = (res, c', w') \<Longrightarrow> cache w' = cache w"
  by (auto simp: try_fetch_def split: prod.splits fetch_result.splits if_splits
           dest: fetch_effects(3))

subsection \<open>The retry loop\<close>


text \<open>
  Three failures in a row that pass the test of the \<open>catch\<close> block: the loop sleeps
  1000 ms and 2000 ms between them and ends with the third error.
\<close>

lemma retry_loop_exhausted:
  assumes "try_fetch url c w = (Inl e1, c1, w1)" and "\<not> no_retry e1"
    and "sleep 1000 c1 w1 = (c1', w1')"
    and "try_fetch url c1' w1' = (Inl e2, c2, w2)" and "\<not> no_retry e2"
    and "sleep 2000 c2 w2 = (c2', w2')"
    and "try_fetch url c2' w2' = (Inl e3, c3, w3)" and "\<not> no_retry e3"
  shows "retry_loop url 0 None c w = (Inl (Some e3), c3, w3)"
proof -
  have "retry_loop url (Suc (Suc (Suc 0))) (Some e3) c3 w3 = (Inl (Some e3), c3, w3)"
    by (subst retry_loop.simps) (simp add: MAX_RETRIES_def)
  then have "retry_loop url (Suc (Suc 0)) (Some e2) c2' w2' = (Inl (Some e3), c3, w3)"
    using assms(7,8) by (subst retry_loop.simps) (simp add: MAX_RETRIES_def)
  then have "retry_loop url (Suc 0) (Some e1) c1' w1' = (Inl (Some e3), c3, w3)"
    using assms(4,5,6) by (subst retry_loop.simps) (simp add: MAX_RETRIES_def)
  then show ?thesis
    using assms(1,2,3) by (subst retry_loop.simps) (simp add: MAX_RETRIES_def)
qed

text \<open>
  So a backend that keeps answering 503 is asked three times, and with no error captured
  the value thrown would be the generic one.
\<close>

lemma unavailable_is_retried:
  "fst (fetchWithRetry ''https://api.test/trends'' (net_world nw_unavailable))
     = Inl (Error ''HTTP 503: Service Unavailable'')
   \<and> trace (snd (fetchWithRetry ''https://api.test/trends'' (net_world nw_unavailable)))
     = [NetFetch ''https://api.test/trends'', Sleep 1000, NetFetch ''https://api.test/trends'',
        Sleep 2000, NetFetch ''https://api.test/trends'']"
  by (simp add: client_defs retry_loop.simps string_of_nat.simps world_defs nw_unavailable_def)

lemma no_error_captured: "last_or_generic None = Error ''Request failed''"
  by (simp add: last_or_generic_def)

text \<open>The loop never touches the cache.\<close>

lemma retry_loop_cache:
  "retry_loop url attempt lastError c w = (res, c', w') \<Longrightarrow> cache w' = cache w"
proof (induction url attempt lastError c w rule: retry_loop.induct)
  case (1 url attempt lastError c w)
  show ?case
  proof (cases "attempt \<le> MAX_RETRIES")
    case False
    with "1.prems" show ?thesis by (subst (asm) retry_loop.simps) simp
  next
    case True
    obtain r c1 w1 where tf: "try_fetch url c w = (r, c1, w1)"
      by (cases "try_fetch url c w") auto
    have cw1: "cache w1 = cache w" using tf by (rule try_fetch_cache)
    show ?thesis
    proof (cases r)
      case (Inr resp)
      with "1.prems" True tf cw1 show ?thesis by (subst (asm) retry_loop.simps) auto
    next
      case (Inl e)
      show ?thesis
      proof (cases "no_retry e")
        case True
        with "1.prems" \<open>attempt \<le> MAX_RETRIES\<close> tf cw1 Inl show ?thesis
          by (subst (asm) retry_loop.simps) auto
      next
        case again: False
        show ?thesis
        proof (cases "attempt < MAX_RETRIES")
          case backoff: True
          obtain c2 w2 where sl: "sleep (2 ^ attempt * 1000) c1 w1 = (c2, w2)"
            by (cases "sleep (2 ^ attempt * 1000) c1 w1") auto
          have "retry_loop url (Suc attempt) (Some e) c2 w2 = (res, c', w')"
            using "1.prems" True tf Inl again backoff sl by (subst (asm) retry_loop.simps) simp
          then have "cache w' = cache w2"
            using "1.IH"(1) [OF True tf [symmetric] Inl refl again backoff sl [symmetric]]
            by simp
          then show ?thesis using sleep_cache [OF sl] cw1 by simp
        next
          case last: False
          have "retry_loop url (Suc attempt) (Some e) c1 w1 = (res, c', w')"
            using "1.prems" True tf Inl again last by (subst (asm) retry_loop.simps) simp
          then have "cache w' = cache w1"
            using "1.IH"(2) [OF True tf [symmetric] Inl refl again last] by simp
          then show ?thesis using cw1 by simp
        qed
      qed
    qed
  qed
qed

lemma fetchWithRetry_cache: "fetchWithRetry url w = (res, w') \<Longrightarrow> cache w' = cache w"
  by (auto simp: fetchWithRetry_def split: prod.splits sum.splits dest: retry_loop_cache)

subsection \<open>Mock data, cache and query functions\<close>

lemmas query_defs =
  fetchTrends_def fetchSubtrends_def fetchStartups_def query_def fresh_def via_mock_def
  via_network_def getMockData_def route_mock_def route_subtrends_def route_startups_def
  getCachedData_def setCachedData_def getCacheKey_def trends_endpoint_def
  subtrends_endpoint_def startups_endpoint_def shouldUseMocks_def getApiBaseUrl_def
  or_else_def falsy_str_def string_of_int_def at_index_def CACHE_DURATION_def mockTrends_def

lemma getMockData_effects:
  assumes "getMockData endpoint w = (res, w1)"
  shows "fetches w1 = fetches w" and "trace w1 = trace w @ [MockAccess endpoint]"
    and "cache w1 = cache w"
  using assms by (auto simp: getMockData_def Let_def)

lemma getCachedData_frame:
  assumes "getCachedData key w = (cached, w1)"
  shows "fetches w1 = fetches w" and "trace w1 = trace w" and "now w1 = now w"
    and "shouldUseMocks w1 = shouldUseMocks w" and "mockTrends w1 = mockTrends w"
    and "mock_delay w1 = mock_delay w"
  using assms
  by (auto simp: getCachedData_def shouldUseMocks_def getApiBaseUrl_def mockTrends_def
           split: option.splits if_splits)

lemma no_base_url_means_mocks: "getApiBaseUrl w = None \<Longrightarrow> shouldUseMocks w"
  by (simp add: shouldUseMocks_def falsy_str_def)

lemma base_url_truthy: "\<not> shouldUseMocks w \<Longrightarrow> \<not> falsy_str (getApiBaseUrl w)"
  by (simp add: shouldUseMocks_def)

lemma fresh_stores:
  assumes "fresh endpoint key w = (Inr d, w1)"
  shows "cache w1 key = Some \<lparr>data = d, timestamp = now w1\<rparr>"
  using assms
  by (auto simp: fresh_def via_mock_def via_network_def setCachedData_def
           split: if_splits prod.splits sum.splits)

lemma fresh_failure_keeps_cache:
  assumes "fresh endpoint key w = (Inl e, w1)"
  shows "cache w1 = cache w"
  using assms
  by (auto simp: fresh_def via_mock_def via_network_def
           split: if_splits prod.splits sum.splits
           dest: getMockData_effects(3) fetchWithRetry_cache)

lemma query_hit:
  assumes "cache w (getCacheKey endpoint) = Some entry"
    and "now w - timestamp entry \<le> CACHE_DURATION" and "truthy (data entry)"
  shows "query resource endpoint w = (Inr (data entry), w)"
  using assms by (simp add: query_def getCachedData_def)

lemma query_again:
  assumes "query resource endpoint w = (Inr d, w1)" and "truthy d"
  shows "query resource endpoint w1 = (Inr d, w1)"
proof -
  obtain cached w0 where g: "getCachedData (getCacheKey endpoint) w = (cached, w0)"
    by (cases "getCachedData (getCacheKey endpoint) w") auto
  show ?thesis
  proof (cases "truthy cached")
    case True
    with assms g have eq: "cached = d" "w0 = w1" by (auto simp: query_def)
    from g True have "w0 = w" 
      by (auto simp: getCachedData_def split: option.splits if_splits)
    with assms eq show ?thesis by simp
  next
    case False
    with assms g have "fresh endpoint (getCacheKey endpoint) w0 = (Inr d, w1)"
      by (auto simp: query_def split: prod.splits sum.splits)
    then have "cache w1 (getCacheKey endpoint) = Some \<lparr>data = d, timestamp = now w1\<rparr>"
      by (rule fresh_stores)
    then show ?thesis
      using query_hit [of w1 endpoint "\<lparr>data = d, timestamp = now w1\<rparr>" resource] assms(2)
      by (simp add: CACHE_DURATION_def)
  qed
qed

lemma query_miss:
  assumes "getCachedData (getCacheKey endpoint) w = (cached, w1)" and "\<not> truthy cached"
  shows "query resource endpoint w =
           (case fresh endpoint (getCacheKey endpoint) w1 of
              (Inr d, w2) \<Rightarrow> (Inr d, w2)
            | (Inl e, w2) \<Rightarrow>
                (Inl (Error (''Failed to fetch '' @ resource @ '': '' @ message e)), w2))"
  using assms by (simp add: query_def)

lemma three_trends: "length (take 3 (mockTrends w)) = 3"
  by (simp add: mockTrends_def)

lemma route_mock_three:
  assumes "limit \<in> {None, Some 0, Some 3}"
  shows "route_mock (trends_endpoint limit) w = Inr (JArr (take 3 (mockTrends w)))"
  using assms
  by (auto simp: route_mock_def trends_endpoint_def string_of_int_def string_of_nat.simps
      digit_def startsWith_def)

lemma fetchTrends_from_mock:
  assumes "shouldUseMocks w" and "limit \<in> {None, Some 0, Some 3}"
    and "\<not> truthy (fst (getCachedData (getCacheKey (trends_endpoint limit)) w))"
  shows "fst (fetchTrends limit w) = Inr (JArr (take 3 (mockTrends w)))
       \<and> fetches (snd (fetchTrends limit w)) = fetches w
       \<and> trace (snd (fetchTrends limit w))
           = trace w @ [MockAccess (trends_endpoint limit),
                        CacheSet (getCacheKey (trends_endpoint limit))]"
proof -
  let ?ep = "trends_endpoint limit"
  obtain cached w1 where g: "getCachedData (getCacheKey ?ep) w = (cached, w1)"
    by (cases "getCachedData (getCacheKey ?ep) w") auto
  have miss: "\<not> truthy cached" using assms(3) g by simp
  have mocks: "shouldUseMocks w1" using getCachedData_frame(4) [OF g] assms(1) by simp
  let ?w2 = "w1\<lparr>now := now w1 + int (mock_delay w1), trace := trace w1 @ [MockAccess ?ep]\<rparr>"
  have same: "mockTrends ?w2 = mockTrends w1" by (simp add: mockTrends_def)
  have gm: "getMockData ?ep w1 = (Inr (JArr (take 3 (mockTrends w1))), ?w2)"
    using route_mock_three [OF assms(2), of ?w2] same by (simp add: getMockData_def Let_def)
  have "fetchTrends limit w
          = (Inr (JArr (take 3 (mockTrends w1))),
             setCachedData (getCacheKey ?ep) (JArr (take 3 (mockTrends w1))) ?w2)"
    using query_miss [OF g miss, of "''trends''"] mocks gm
    by (simp add: fetchTrends_def fresh_def via_mock_def)
  then show ?thesis
    using getCachedData_frame [OF g] by (simp add: setCachedData_def)
qed

text \<open>
  What a successful call leaves behind: an entry with the payload it returned, not yet
  expired. A truthy payload is then served from the cache, with no effect at all, in every
  later world that still has that entry and is within the TTL of its capture time.
\<close>

lemma query_captures:
  assumes "query resource endpoint w = (Inr d, w1)"
  shows "\<exists>t. cache w1 (getCacheKey endpoint) = Some \<lparr>data = d, timestamp = t\<rparr>
            \<and> now w1 - t \<le> CACHE_DURATION"
proof -
  obtain cached w0 where g: "getCachedData (getCacheKey endpoint) w = (cached, w0)"
    by (cases "getCachedData (getCacheKey endpoint) w") auto
  show ?thesis
  proof (cases "truthy cached")
    case True
    with assms g have eq: "cached = d" "w0 = w1" by (auto simp: query_def)
    from g True obtain entry where
      "cache w (getCacheKey endpoint) = Some entry" "data entry = cached"
      "now w - timestamp entry \<le> CACHE_DURATION" "w0 = w"
      by (auto simp: getCachedData_def split: option.splits if_splits)
    with eq have "cache w1 (getCacheKey endpoint) = Some \<lparr>data = d, timestamp = timestamp entry\<rparr>
                  \<and> now w1 - timestamp entry \<le> CACHE_DURATION"
      by simp
    then show ?thesis by blast
  next
    case False
    with assms g have "fresh endpoint (getCacheKey endpoint) w0 = (Inr d, w1)"
      by (auto simp: query_def split: prod.splits sum.splits)
    then have "cache w1 (getCacheKey endpoint) = Some \<lparr>data = d, timestamp = now w1\<rparr>"
      by (rule fresh_stores)
    then have "cache w1 (getCacheKey endpoint) = Some \<lparr>data = d, timestamp = now w1\<rparr>
               \<and> now w1 - now w1 \<le> CACHE_DURATION"
      by (simp add: CACHE_DURATION_def)
    then show ?thesis by blast
  qed
qed

lemma query_within_ttl:
  assumes "query resource endpoint w = (Inr d, w1)" and "truthy d"
  shows "\<exists>t. cache w1 (getCacheKey endpoint) = Some \<lparr>data = d, timestamp = t\<rparr>
            \<and> now w1 - t \<le> CACHE_DURATION
            \<and> (\<forall>w2. cache w2 (getCacheKey endpoint) = cache w1 (getCacheKey endpoint)
                      \<and> now w2 - t \<le> CACHE_DURATION
                   \<longrightarrow> query resource' endpoint w2 = (Inr d, w2))"
proof -
  from query_captures [OF assms(1)] obtain t where
    t: "cache w1 (getCacheKey endpoint) = Some \<lparr>data = d, timestamp = t\<rparr>"
       "now w1 - t \<le> CACHE_DURATION"
    by blast
  have "query resource' endpoint w2 = (Inr d, w2)"
    if "cache w2 (getCacheKey endpoint) = cache w1 (getCacheKey endpoint)
        \<and> now w2 - t \<le> CACHE_DURATION" for w2
    using that t(1) assms(2)
      query_hit [of w2 endpoint "\<lparr>data = d, timestamp = t\<rparr>" resource']
    by simp
  with t show ?thesis by blast
qed

text \<open>
  The mock provider has no route for a trends request with a limit other than 3: the
  request of \<open>testConnection\<close> itself, \<open>/trends?limit=1\<close>, finds none, so in mock mode the
  connection test fails in every world; a limit of 30 is served three records, because
  \<open>limit=30\<close> contains \<open>limit=3\<close>.
\<close>

lemma route_mock_limit_one:
  "route_mock ''/trends?limit=1'' w
     = Inl (Error ''Mock data not found for endpoint: /trends?limit=1'')"
  by (simp add: route_mock_def route_subtrends_def route_startups_def startsWith_def)

lemma testConnection_fails_in_mock_mode:
  assumes "shouldUseMocks w"
  shows "success (fst (testConnection w)) = False"
    and "error (fst (testConnection w)) = Some ''Mock data not found for endpoint: /trends?limit=1''"
  using assms
  by (simp_all add: testConnection_def test_mock_def getMockData_def Let_def
      route_mock_limit_one failed_def Error_def)

lemma route_mock_limit_thirty:
  "route_mock (trends_endpoint (Some 30)) w = Inr (JArr (take 3 (mockTrends w)))"
  by (simp add: route_mock_def trends_endpoint_def string_of_int_def string_of_nat.simps
      digit_def startsWith_def)

lemma fresh_without_config_error:
  "fresh endpoint cacheKey w =
     (if shouldUseMocks w then via_mock endpoint cacheKey w
      else via_network (the (getApiBaseUrl w)) endpoint cacheKey w)"
  by (simp add: fresh_def base_url_truthy)

section \<open>The claims\<close>

subsection \<open>Cache Store\<close>

text \<open>
  Claim C1, amended at the boundary. After \<open>put(k, v)\<close> in world \<open>w\<close>, in any later world
  \<open>w'\<close> whose entry for \<open>k\<close> is still the one that was put, \<open>get(k)\<close> returns \<open>v\<close> and leaves
  the world alone as long as \<open>now - captured_at \<le> TTL\<close>; once \<open>now - captured_at > TTL\<close> it
  returns \<open>null\<close> and the same call deletes the entry. The test of the source is
  \<open>Date.now() - cached.timestamp > CACHE_DURATION\<close>, so an entry whose age is exactly the
  TTL is still served.
\<close>

theorem cache_entry_lifetime:
  assumes "cache w' key = cache (setCachedData key v w) key"
  shows "getCachedData key w' =
           (if now w' - now w \<le> CACHE_DURATION then (v, w')
            else (JNull, w'\<lparr>cache := (cache w')(key := None)\<rparr>))"
  using assms by (simp add: getCachedData_def setCachedData_def)

theorem cache_entry_lifetime_witness:
  "cache (cached_world (JArr [])\<lparr>now := 1000\<rparr>) ''api:/trends''
     = cache (setCachedData ''api:/trends'' (JArr []) mock_world) ''api:/trends''
   \<and> getCachedData ''api:/trends'' (cached_world (JArr [])\<lparr>now := 1000\<rparr>)
     = (JArr [], cached_world (JArr [])\<lparr>now := 1000\<rparr>)"
  using cache_entry_lifetime
    [of "cached_world (JArr [])\<lparr>now := 1000\<rparr>" "''api:/trends''" "JArr []" mock_world]
  by (simp add: world_defs CACHE_DURATION_def setCachedData_def)

text \<open>
  C1 as the spec words it holds an entry authoritative only while \<open>now - captured_at < TTL\<close>.
  An entry put at time 0 and read at time 300000 is no longer within that bound, and yet
  it is returned and stays in the cache.
\<close>

theorem cache_entry_at_ttl_counterexample:
  "\<not> (now (cached_world (JArr [])\<lparr>now := 300000\<rparr>) - now mock_world < CACHE_DURATION)
   \<and> getCachedData ''api:/trends'' (cached_world (JArr [])\<lparr>now := 300000\<rparr>)
       = (JArr [], cached_world (JArr [])\<lparr>now := 300000\<rparr>)
   \<and> cache (snd (getCachedData ''api:/trends'' (cached_world (JArr [])\<lparr>now := 300000\<rparr>)))
        ''api:/trends'' \<noteq> None"
  by (simp add: world_defs CACHE_DURATION_def setCachedData_def getCachedData_def)

subsection \<open>Retrying HTTP Client\<close>

text \<open>
  Claim C2, run on a failure that the spec counts as retryable: every request is answered
  with status 502 and the status text \<open>Upstream sent HTTP 404\<close>. The error message is
  \<open>HTTP 502: Upstream sent HTTP 404\<close>, the test \<open>error.message.includes('HTTP 4')\<close> of the
  \<open>catch\<close> block holds for it, and the call ends after one request, without a backoff sleep.
\<close>

theorem gateway_error_not_retried:
  "fst (fetchWithRetry ''https://api.test/trends'' (net_world nw_gateway))
     = Inl (Error ''HTTP 502: Upstream sent HTTP 404'')
   \<and> trace (snd (fetchWithRetry ''https://api.test/trends'' (net_world nw_gateway)))
     = [NetFetch ''https://api.test/trends'']"
  by (simp add: client_defs retry_loop.simps string_of_nat.simps world_defs nw_gateway_def)



text \<open>
  Claim C7, run on a backend that answers the first request with a 500 after 100 ms and
  takes 20 seconds to answer the second. \<open>clearTimeout\<close> runs as soon as the first
  response is there, before the status is looked at, so nothing aborts the retries: the
  call makes all three requests, the third one 23.1 seconds after the start, and ends at
  23.2 seconds with the error of the last 500, not with an \<open>AbortError\<close>.
\<close>

theorem timer_cleared_by_first_response:
  "fst (fetchWithRetry ''https://api.test/trends'' (net_world nw_slow_second))
     = Inl (Error ''HTTP 500: Internal Server Error'')
   \<and> trace (snd (fetchWithRetry ''https://api.test/trends'' (net_world nw_slow_second)))
     = [NetFetch ''https://api.test/trends'', Sleep 1000, NetFetch ''https://api.test/trends'',
        Sleep 2000, NetFetch ''https://api.test/trends'']
   \<and> now (snd (fetchWithRetry ''https://api.test/trends'' (net_world nw_slow_second))) = 23200"
  by (simp add: client_defs retry_loop.simps string_of_nat.simps world_defs nw_slow_second_def)

subsection \<open>Mock Provider\<close>

text \<open>
  Claim C5, run on \<open>fetchTrends(5)\<close> in mock mode with an empty cache. The trends route
  of the mock provider is taken only when the endpoint contains \<open>limit=3\<close> or is exactly
  \<open>/trends\<close>, and it always answers \<open>mockTrends.slice(0, 3)\<close>. For \<open>/trends?limit=5\<close> no
  route is left, and the call fails after the mock access instead of returning the
  fixture cut to five records.
\<close>

theorem mock_trends_limit_five_fails:
  "shouldUseMocks mock_world
   \<and> fst (fetchTrends (Some 5) mock_world)
       = Inl (Error ''Failed to fetch trends: Mock data not found for endpoint: /trends?limit=5'')
   \<and> trace (snd (fetchTrends (Some 5) mock_world)) = [MockAccess ''/trends?limit=5'']"
  by (simp add: query_defs world_defs string_of_nat.simps digit_def startsWith_def Error_def)

text \<open>
  Claim C6, run on \<open>fetchStartups("defense-tech", 3)\<close> in mock mode. The endpoint
  \<open>/subtrends/defense-tech/startups?limit=3\<close> contains \<open>/subtrends\<close>, so the subtrends
  route takes it and answers with the subtrends fixture of defense-tech, although
  defense-tech is not an identifier registered for startups.
\<close>

theorem startups_of_a_trend_identifier:
  "shouldUseMocks mock_world
   \<and> fst (fetchStartups ''defense-tech'' (Some 3) mock_world)
       = Inr (JArr [JStr ''military-drones'', JStr ''cyber-defense''])
   \<and> mockSubtrendsDefenseTech mock_world = [JStr ''military-drones'', JStr ''cyber-defense'']"
  by (simp add: query_defs world_defs string_of_nat.simps digit_def startsWith_def Error_def)

subsection \<open>Query Functions\<close>

text \<open>
  Claim C4, amended for payloads that are falsy. For each of the three query functions: if
  the cache holds a live entry for the computed key and its payload is truthy (every array
  is, and arrays are what the declared result types allow), the call returns that payload
  and hands back the world as it was: no mock access, no request, no cache write, no time
  passed. And after a call that returned a truthy payload, the cache holds that payload
  with a capture time \<open>t\<close>, and an identical call in any later world that still has the
  entry and is within the TTL of \<open>t\<close> is answered in that way. The source tests
  \<open>if (cached)\<close>, so a stored \<open>null\<close>, \<open>false\<close>, \<open>0\<close> or \<open>""\<close> is not a hit.
\<close>

theorem live_truthy_entry_short_circuits:
  assumes "(f, endpoint) \<in>
             {(fetchTrends limit, trends_endpoint limit),
              (fetchSubtrends trendId, subtrends_endpoint trendId),
              (fetchStartups subtrendId limit', startups_endpoint subtrendId limit')}"
  shows "(\<forall>entry. cache w (getCacheKey endpoint) = Some entry
              \<and> now w - timestamp entry \<le> CACHE_DURATION \<and> truthy (data entry)
            \<longrightarrow> f w = (Inr (data entry), w))
       \<and> (\<forall>d w1. f w = (Inr d, w1) \<and> truthy d \<longrightarrow>
            (\<exists>t. cache w1 (getCacheKey endpoint) = Some \<lparr>data = d, timestamp = t\<rparr>
                \<and> now w1 - t \<le> CACHE_DURATION
                \<and> (\<forall>w2. cache w2 (getCacheKey endpoint) = cache w1 (getCacheKey endpoint)
                          \<and> now w2 - t \<le> CACHE_DURATION
                       \<longrightarrow> f w2 = (Inr d, w2))))"
proof -
  obtain resource where f: "f = query resource endpoint"
    using assms by (auto simp: fetchTrends_def fetchSubtrends_def fetchStartups_def fun_eq_iff)
  show ?thesis
    unfolding f using query_within_ttl [of resource endpoint w _ _ resource]
    by (auto intro: query_hit)
qed

theorem live_truthy_entry_short_circuits_witness:
  "(fetchTrends None, trends_endpoint None) \<in>
             {(fetchTrends None, trends_endpoint None),
              (fetchSubtrends ''defense-tech'', subtrends_endpoint ''defense-tech''),
              (fetchStartups ''military-drones'' None, startups_endpoint ''military-drones'' None)}
   \<and> cache (cached_world (JArr [])) (getCacheKey (trends_endpoint None))
       = Some \<lparr>data = JArr [], timestamp = 0\<rparr>
   \<and> now (cached_world (JArr [])) - 0 \<le> CACHE_DURATION \<and> truthy (JArr [])
   \<and> fetchTrends None (cached_world (JArr [])) = (Inr (JArr []), cached_world (JArr []))
   \<and> fst (fetchTrends None mock_world)
       = Inr (JArr [JStr ''ai'', JStr ''defense-tech'', JStr ''climate-solutions''])
   \<and> truthy (JArr [JStr ''ai'', JStr ''defense-tech'', JStr ''climate-solutions''])
   \<and> cache (snd (fetchTrends None mock_world)) (getCacheKey (trends_endpoint None))
       = Some \<lparr>data = JArr [JStr ''ai'', JStr ''defense-tech'', JStr ''climate-solutions''],
               timestamp = 250\<rparr>
   \<and> 300250 - 250 \<le> CACHE_DURATION
   \<and> fetchTrends None ((snd (fetchTrends None mock_world))\<lparr>now := 300250\<rparr>)
       = (Inr (JArr [JStr ''ai'', JStr ''defense-tech'', JStr ''climate-solutions'']),
          (snd (fetchTrends None mock_world))\<lparr>now := 300250\<rparr>)"
proof -
  let ?w = "cached_world (JArr [])"
  let ?recs = "JArr [JStr ''ai'', JStr ''defense-tech'', JStr ''climate-solutions'']"
  let ?k = "getCacheKey (trends_endpoint None)"
  let ?w1 = "snd (fetchTrends None mock_world)"
  have mem: "(fetchTrends None, trends_endpoint None) \<in>
             {(fetchTrends None, trends_endpoint None),
              (fetchSubtrends ''defense-tech'', subtrends_endpoint ''defense-tech''),
              (fetchStartups ''military-drones'' None, startups_endpoint ''military-drones'' None)}"
    by simp
  have entry: "cache ?w ?k = Some \<lparr>data = JArr [], timestamp = 0\<rparr>"
    and live: "now ?w - 0 \<le> CACHE_DURATION"
    by (simp_all add: world_defs setCachedData_def getCacheKey_def trends_endpoint_def
        CACHE_DURATION_def)
  have hit: "fetchTrends None ?w = (Inr (JArr []), ?w)"
    using live_truthy_entry_short_circuits
            [OF mem, of ?w, THEN conjunct1, THEN spec, of "\<lparr>data = JArr [], timestamp = 0\<rparr>"]
          entry live
    by simp
  have first: "fst (fetchTrends None mock_world) = Inr ?recs"
    by (simp add: query_defs world_defs startsWith_def)
  have stored: "cache ?w1 ?k = Some \<lparr>data = ?recs, timestamp = 250\<rparr>"
    by (simp add: query_defs world_defs startsWith_def)
  have ttl: "(300250::int) - 250 \<le> CACHE_DURATION" by (simp add: CACHE_DURATION_def)
  have call: "fetchTrends None mock_world = (Inr ?recs, ?w1)"
    using first by (simp add: prod_eq_iff)
  have "\<exists>t. cache ?w1 ?k = Some \<lparr>data = ?recs, timestamp = t\<rparr>
            \<and> now ?w1 - t \<le> CACHE_DURATION
            \<and> (\<forall>w2. cache w2 ?k = cache ?w1 ?k \<and> now w2 - t \<le> CACHE_DURATION
                   \<longrightarrow> fetchTrends None w2 = (Inr ?recs, w2))"
    using live_truthy_entry_short_circuits
            [OF mem, of mock_world, THEN conjunct2, THEN spec, THEN spec, of ?recs ?w1]
          call
    by simp
  then obtain t where t: "cache ?w1 ?k = Some \<lparr>data = ?recs, timestamp = t\<rparr>"
    and later: "\<And>w2. cache w2 ?k = cache ?w1 ?k \<and> now w2 - t \<le> CACHE_DURATION
                   \<Longrightarrow> fetchTrends None w2 = (Inr ?recs, w2)"
    by blast
  from t stored have "t = 250" by simp
  then have again: "fetchTrends None (?w1\<lparr>now := 300250\<rparr>) = (Inr ?recs, ?w1\<lparr>now := 300250\<rparr>)"
    using later [of "?w1\<lparr>now := 300250\<rparr>"] ttl by simp
  from mem entry live hit first stored ttl again show ?thesis
    by (intro conjI) simp_all
qed

text \<open>
  C4 as stated fails for a backend whose body is the JSON value \<open>null\<close>: the first call
  stores it, the entry is live, and the second identical call goes to the network again.
\<close>

theorem falsy_payload_refetched_counterexample:
  "fst (fetchTrends None (net_world nw_null)) = Inr JNull
   \<and> cache (snd (fetchTrends None (net_world nw_null))) (getCacheKey (trends_endpoint None))
       = Some \<lparr>data = JNull, timestamp = 100\<rparr>
   \<and> now (snd (fetchTrends None (net_world nw_null))) - 100 \<le> CACHE_DURATION
   \<and> trace (snd (fetchTrends None (snd (fetchTrends None (net_world nw_null)))))
       = [NetFetch ''https://api.test/trends'', CacheSet ''api:/trends'',
          NetFetch ''https://api.test/trends'', CacheSet ''api:/trends'']"
  by (simp add: query_defs client_defs retry_loop.simps world_defs nw_null_def)

text \<open>
  Claim C8. Let \<open>f\<close> be one of the three query functions, with its resource name and its
  endpoint, and let the cache check yield \<open>cached\<close>. A truthy \<open>cached\<close> is returned as it
  is, past all error handling. Otherwise, when the mock provider fails, when
  \<open>fetchWithRetry\<close> fails, or when decoding the body fails, with error \<open>e\<close>, the call
  fails with \<open>Failed to fetch <resource>: <message of e>\<close> and the cache is as the cache
  check left it. And whenever the call fails, it is on a cache miss, with the wrapped
  error of a failed \<open>try\<close> block.
\<close>

theorem fresh_failure_is_wrapped_and_rethrown:
  assumes "(f, resource, endpoint) \<in>
             {(fetchTrends limit, ''trends'', trends_endpoint limit),
              (fetchSubtrends trendId, ''subtrends'', subtrends_endpoint trendId),
              (fetchStartups subtrendId limit', ''startups'', startups_endpoint subtrendId limit')}"
    and "getCachedData (getCacheKey endpoint) w = (cached, w1)"
  shows "(truthy cached \<longrightarrow> f w = (Inr cached, w1))
       \<and> (\<not> truthy cached \<longrightarrow>
            (\<forall>e w2.
               (shouldUseMocks w1 \<and> getMockData endpoint w1 = (Inl e, w2))
               \<or> (\<not> shouldUseMocks w1
                   \<and> fetchWithRetry (the (getApiBaseUrl w1) @ endpoint) w1 = (Inl e, w2))
               \<or> (\<not> shouldUseMocks w1
                   \<and> (\<exists>r. fetchWithRetry (the (getApiBaseUrl w1) @ endpoint) w1 = (Inr r, w2)
                          \<and> body r = Inl e))
               \<longrightarrow> f w = (Inl (Error (''Failed to fetch '' @ resource @ '': '' @ message e)), w2)
                   \<and> cache w2 = cache w1))
       \<and> (\<forall>e' w2. f w = (Inl e', w2) \<longrightarrow>
            \<not> truthy cached
            \<and> (\<exists>e. fresh endpoint (getCacheKey endpoint) w1 = (Inl e, w2)
                   \<and> e' = Error (''Failed to fetch '' @ resource @ '': '' @ message e)))"
proof -
  have f: "f = query resource endpoint"
    using assms(1) by (auto simp: fetchTrends_def fetchSubtrends_def fetchStartups_def fun_eq_iff)
  have hit: "truthy cached \<longrightarrow> f w = (Inr cached, w1)"
    using assms(2) by (simp add: f query_def)
  have wrapped: "f w = (Inl (Error (''Failed to fetch '' @ resource @ '': '' @ message e)), w2)
                 \<and> cache w2 = cache w1"
    if miss: "\<not> truthy cached"
      and fails: "(shouldUseMocks w1 \<and> getMockData endpoint w1 = (Inl e, w2))
               \<or> (\<not> shouldUseMocks w1
                   \<and> fetchWithRetry (the (getApiBaseUrl w1) @ endpoint) w1 = (Inl e, w2))
               \<or> (\<not> shouldUseMocks w1
                   \<and> (\<exists>r. fetchWithRetry (the (getApiBaseUrl w1) @ endpoint) w1 = (Inr r, w2)
                          \<and> body r = Inl e))" for e w2
  proof -
    have fr: "fresh endpoint (getCacheKey endpoint) w1 = (Inl e, w2)"
      using fails unfolding fresh_without_config_error
      by (auto simp: via_mock_def via_network_def)
    then have "f w = (Inl (Error (''Failed to fetch '' @ resource @ '': '' @ message e)), w2)"
      using query_miss [OF assms(2) miss, of resource] by (simp add: f)
    then show ?thesis using fresh_failure_keeps_cache [OF fr] by simp
  qed
  have only: "\<not> truthy cached
            \<and> (\<exists>e. fresh endpoint (getCacheKey endpoint) w1 = (Inl e, w2)
                   \<and> e' = Error (''Failed to fetch '' @ resource @ '': '' @ message e))"
    if "f w = (Inl e', w2)" for e' w2
    using that assms(2) unfolding f
    by (auto simp: query_def split: if_splits prod.splits sum.splits)
  show ?thesis using hit wrapped only by blast
qed

theorem fresh_failure_is_wrapped_and_rethrown_witness:
  "(fetchSubtrends ''unknown-id'', ''subtrends'', subtrends_endpoint ''unknown-id'') \<in>
             {(fetchTrends None, ''trends'', trends_endpoint None),
              (fetchSubtrends ''unknown-id'', ''subtrends'', subtrends_endpoint ''unknown-id''),
              (fetchStartups ''x'' None, ''startups'', startups_endpoint ''x'' None)}
   \<and> getCachedData (getCacheKey (subtrends_endpoint ''unknown-id'')) mock_world = (JNull, mock_world)
   \<and> \<not> truthy JNull
   \<and> shouldUseMocks mock_world
   \<and> fst (getMockData (subtrends_endpoint ''unknown-id'') mock_world)
       = Inl (Error ''Mock data not found for endpoint: /trends/unknown-id/subtrends'')
   \<and> fst (fetchSubtrends ''unknown-id'' mock_world)
       = Inl (Error ''Failed to fetch subtrends: Mock data not found for endpoint: /trends/unknown-id/subtrends'')
   \<and> cache (snd (fetchSubtrends ''unknown-id'' mock_world)) = cache mock_world
   \<and> getCachedData (getCacheKey (trends_endpoint None)) (cached_world (JArr []))
       = (JArr [], cached_world (JArr []))
   \<and> truthy (JArr [])
   \<and> fetchTrends None (cached_world (JArr [])) = (Inr (JArr []), cached_world (JArr []))"
proof -
  let ?ep = "subtrends_endpoint ''unknown-id''"
  let ?cw = "cached_world (JArr [])"
  have g: "getCachedData (getCacheKey ?ep) mock_world = (JNull, mock_world)"
    by (simp add: getCachedData_def world_defs)
  have m: "shouldUseMocks mock_world"
    by (simp add: shouldUseMocks_def getApiBaseUrl_def or_else_def falsy_str_def world_defs)
  have gm: "getMockData ?ep mock_world
              = (Inl (Error ''Mock data not found for endpoint: /trends/unknown-id/subtrends''),
                 snd (getMockData ?ep mock_world))"
    by (simp add: query_defs world_defs startsWith_def)
  have mem: "(fetchSubtrends ''unknown-id'', ''subtrends'', ?ep) \<in>
             {(fetchTrends None, ''trends'', trends_endpoint None),
              (fetchSubtrends ''unknown-id'', ''subtrends'', ?ep),
              (fetchStartups ''x'' None, ''startups'', startups_endpoint ''x'' None)}"
    by simp
  have mem': "(fetchTrends None, ''trends'', trends_endpoint None) \<in>
             {(fetchTrends None, ''trends'', trends_endpoint None),
              (fetchSubtrends ''unknown-id'', ''subtrends'', ?ep),
              (fetchStartups ''x'' None, ''startups'', startups_endpoint ''x'' None)}"
    by simp
  have g': "getCachedData (getCacheKey (trends_endpoint None)) ?cw = (JArr [], ?cw)"
    by (simp add: getCachedData_def setCachedData_def getCacheKey_def trends_endpoint_def
        CACHE_DURATION_def world_defs)
  have hit: "fetchTrends None ?cw = (Inr (JArr []), ?cw)"
    using fresh_failure_is_wrapped_and_rethrown [OF mem' g', THEN conjunct1] by simp
  have failure: "fetchSubtrends ''unknown-id'' mock_world
          = (Inl (Error (''Failed to fetch '' @ ''subtrends'' @ '': '' @
               message (Error ''Mock data not found for endpoint: /trends/unknown-id/subtrends''))),
             snd (getMockData ?ep mock_world))
        \<and> cache (snd (getMockData ?ep mock_world)) = cache mock_world"
    using fresh_failure_is_wrapped_and_rethrown [OF mem g] m gm by simp
  moreover have "fst (getMockData ?ep mock_world)
                   = Inl (Error ''Mock data not found for endpoint: /trends/unknown-id/subtrends'')"
    by (subst gm) simp
  ultimately show ?thesis using g m g' hit by (simp add: Error_def)
qed

text \<open>
  Claim C9. In one and the same world, a base URL of \<open>null\<close> means mock mode, and outside
  mock mode the base URL is a non-empty string. So the \<open>try\<close> block shared by the three
  query functions and \<open>testConnection\<close> are equal to what they are without their
  \<open>API base URL not configured\<close> branch.
\<close>

theorem config_error_unreachable:
  "(getApiBaseUrl w = None \<longrightarrow> shouldUseMocks w)
   \<and> (\<not> shouldUseMocks w \<longrightarrow> (\<exists>u. getApiBaseUrl w = Some u \<and> u \<noteq> []))
   \<and> fresh endpoint cacheKey w =
       (if shouldUseMocks w then via_mock endpoint cacheKey w
        else via_network (the (getApiBaseUrl w)) endpoint cacheKey w)
   \<and> testConnection w =
       (if shouldUseMocks w then test_mock (now w) w
        else test_network (the (getApiBaseUrl w)) (now w) w)"
proof (intro conjI impI)
  show "shouldUseMocks w" if "getApiBaseUrl w = None"
    using that by (rule no_base_url_means_mocks)
  show "\<exists>u. getApiBaseUrl w = Some u \<and> u \<noteq> []" if "\<not> shouldUseMocks w"
    using base_url_truthy [OF that] by (cases "getApiBaseUrl w") (simp_all add: falsy_str_def)
  show "fresh endpoint cacheKey w =
       (if shouldUseMocks w then via_mock endpoint cacheKey w
        else via_network (the (getApiBaseUrl w)) endpoint cacheKey w)"
    by (rule fresh_without_config_error)
  show "testConnection w =
       (if shouldUseMocks w then test_mock (now w) w
        else test_network (the (getApiBaseUrl w)) (now w) w)"
    by (simp add: testConnection_def base_url_truthy)
qed

theorem config_error_unreachable_witness:
  "getApiBaseUrl mock_world = None \<and> shouldUseMocks mock_world
   \<and> \<not> shouldUseMocks (net_world nw_ok)
   \<and> getApiBaseUrl (net_world nw_ok) = Some ''https://api.test''"
  using config_error_unreachable [of mock_world] config_error_unreachable [of "net_world nw_ok"]
  by (simp add: world_defs shouldUseMocks_def getApiBaseUrl_def or_else_def falsy_str_def)

text \<open>
  Claim C10, amended for what the cache holds. Limit 0 and no limit build the endpoint
  \<open>/trends\<close> and the same cache key, and \<open>fetchTrends(0)\<close> is \<open>fetchTrends()\<close> in every
  world. After either of them returned a truthy payload, the cache holds it under
  \<open>api:/trends\<close>, and both return it, with no effect, in any later world that still has the
  entry and is within the TTL of its capture time. In mock mode, when the cache check for
  \<open>api:/trends\<close> yields nothing truthy, \<open>fetchTrends(0)\<close> returns the first three records of
  the trends fixture, which are three records.
\<close>

theorem zero_limit_is_no_limit:
  "trends_endpoint (Some 0) = ''/trends'' \<and> trends_endpoint None = ''/trends''
   \<and> getCacheKey (trends_endpoint (Some 0)) = getCacheKey (trends_endpoint None)
   \<and> fetchTrends (Some 0) w = fetchTrends None w
   \<and> (\<forall>d w1. (fetchTrends None w = (Inr d, w1) \<or> fetchTrends (Some 0) w = (Inr d, w1))
              \<and> truthy d \<longrightarrow>
         (\<exists>t. cache w1 ''api:/trends'' = Some \<lparr>data = d, timestamp = t\<rparr>
             \<and> now w1 - t \<le> CACHE_DURATION
             \<and> (\<forall>w2. cache w2 ''api:/trends'' = cache w1 ''api:/trends''
                       \<and> now w2 - t \<le> CACHE_DURATION
                    \<longrightarrow> fetchTrends (Some 0) w2 = (Inr d, w2)
                        \<and> fetchTrends None w2 = (Inr d, w2))))
   \<and> (shouldUseMocks w \<and> \<not> truthy (fst (getCachedData ''api:/trends'' w))
      \<longrightarrow> fst (fetchTrends (Some 0) w) = Inr (JArr (take 3 (mockTrends w)))
          \<and> length (take 3 (mockTrends w)) = 3)"
proof -
  have ep: "trends_endpoint (Some 0) = ''/trends''" "trends_endpoint None = ''/trends''"
    by (simp_all add: trends_endpoint_def)
  have key: "getCacheKey (trends_endpoint (Some 0)) = getCacheKey (trends_endpoint None)"
    by (simp add: ep)
  have k: "getCacheKey ''/trends'' = ''api:/trends''" by (simp add: getCacheKey_def)
  have q: "fetchTrends (Some 0) v = query ''trends'' ''/trends'' v"
          "fetchTrends None v = query ''trends'' ''/trends'' v" for v
    by (simp_all add: fetchTrends_def ep)
  have shared: "\<exists>t. cache w1 ''api:/trends'' = Some \<lparr>data = d, timestamp = t\<rparr>
             \<and> now w1 - t \<le> CACHE_DURATION
             \<and> (\<forall>w2. cache w2 ''api:/trends'' = cache w1 ''api:/trends''
                       \<and> now w2 - t \<le> CACHE_DURATION
                    \<longrightarrow> fetchTrends (Some 0) w2 = (Inr d, w2)
                        \<and> fetchTrends None w2 = (Inr d, w2))"
    if "(fetchTrends None w = (Inr d, w1) \<or> fetchTrends (Some 0) w = (Inr d, w1)) \<and> truthy d"
    for d w1
  proof -
    from that have "query ''trends'' ''/trends'' w = (Inr d, w1)" and "truthy d"
      by (auto simp: q)
    from query_within_ttl [OF this, of "''trends''"] show ?thesis
      by (simp add: q k)
  qed
  have mock: "fst (fetchTrends (Some 0) w) = Inr (JArr (take 3 (mockTrends w)))
          \<and> length (take 3 (mockTrends w)) = 3"
    if "shouldUseMocks w \<and> \<not> truthy (fst (getCachedData ''api:/trends'' w))"
    using that fetchTrends_from_mock [of w "Some 0"] three_trends [of w]
    by (simp add: ep k)
  show ?thesis
  proof (intro conjI allI impI)
    show "trends_endpoint (Some 0) = ''/trends''" and "trends_endpoint None = ''/trends''"
      by (rule ep)+
    show "getCacheKey (trends_endpoint (Some 0)) = getCacheKey (trends_endpoint None)"
      by (rule key)
    show "fetchTrends (Some 0) w = fetchTrends None w" by (simp add: q)
  next
    fix d w1
    assume "(fetchTrends None w = (Inr d, w1) \<or> fetchTrends (Some 0) w = (Inr d, w1))
            \<and> truthy d"
    then show "\<exists>t. cache w1 ''api:/trends'' = Some \<lparr>data = d, timestamp = t\<rparr>
             \<and> now w1 - t \<le> CACHE_DURATION
             \<and> (\<forall>w2. cache w2 ''api:/trends'' = cache w1 ''api:/trends''
                       \<and> now w2 - t \<le> CACHE_DURATION
                    \<longrightarrow> fetchTrends (Some 0) w2 = (Inr d, w2)
                        \<and> fetchTrends None w2 = (Inr d, w2))"
      by (rule shared)
  next
    assume h: "shouldUseMocks w \<and> \<not> truthy (fst (getCachedData ''api:/trends'' w))"
    show "fst (fetchTrends (Some 0) w) = Inr (JArr (take 3 (mockTrends w)))"
      using mock [OF h] by simp
  next
    show "length (take 3 (mockTrends w)) = 3" by (rule three_trends)
  qed
qed

theorem zero_limit_is_no_limit_witness:
  "shouldUseMocks mock_world
   \<and> \<not> truthy (fst (getCachedData ''api:/trends'' mock_world))
   \<and> fst (fetchTrends (Some 0) mock_world)
       = Inr (JArr [JStr ''ai'', JStr ''defense-tech'', JStr ''climate-solutions''])
   \<and> fst (fetchTrends None mock_world) = fst (fetchTrends (Some 0) mock_world)
   \<and> truthy (JArr [JStr ''ai'', JStr ''defense-tech'', JStr ''climate-solutions''])
   \<and> cache (snd (fetchTrends None mock_world)) ''api:/trends''
       = Some \<lparr>data = JArr [JStr ''ai'', JStr ''defense-tech'', JStr ''climate-solutions''],
               timestamp = 250\<rparr>
   \<and> 300250 - 250 \<le> CACHE_DURATION
   \<and> fetchTrends (Some 0) ((snd (fetchTrends None mock_world))\<lparr>now := 300250\<rparr>)
       = (Inr (JArr [JStr ''ai'', JStr ''defense-tech'', JStr ''climate-solutions'']),
          (snd (fetchTrends None mock_world))\<lparr>now := 300250\<rparr>)"
proof -
  let ?recs = "JArr [JStr ''ai'', JStr ''defense-tech'', JStr ''climate-solutions'']"
  let ?w1 = "snd (fetchTrends None mock_world)"
  have h: "shouldUseMocks mock_world
           \<and> \<not> truthy (fst (getCachedData ''api:/trends'' mock_world))"
    by (simp add: world_defs shouldUseMocks_def getApiBaseUrl_def or_else_def falsy_str_def
        getCachedData_def)
  note z = zero_limit_is_no_limit [of mock_world]
  from z have same: "fetchTrends (Some 0) mock_world = fetchTrends None mock_world" by blast
  from z h have "fst (fetchTrends (Some 0) mock_world)
                   = Inr (JArr (take 3 (mockTrends mock_world)))" by blast
  then have first: "fst (fetchTrends (Some 0) mock_world) = Inr ?recs"
    by (simp add: world_defs mockTrends_def)
  then have call: "fetchTrends None mock_world = (Inr ?recs, ?w1)"
    by (simp add: same prod_eq_iff)
  have stored: "cache ?w1 ''api:/trends'' = Some \<lparr>data = ?recs, timestamp = 250\<rparr>"
    by (simp add: query_defs world_defs startsWith_def)
  have ttl: "(300250::int) - 250 \<le> CACHE_DURATION" by (simp add: CACHE_DURATION_def)
  have "\<exists>t. cache ?w1 ''api:/trends'' = Some \<lparr>data = ?recs, timestamp = t\<rparr>
             \<and> now ?w1 - t \<le> CACHE_DURATION
             \<and> (\<forall>w2. cache w2 ''api:/trends'' = cache ?w1 ''api:/trends''
                       \<and> now w2 - t \<le> CACHE_DURATION
                    \<longrightarrow> fetchTrends (Some 0) w2 = (Inr ?recs, w2)
                        \<and> fetchTrends None w2 = (Inr ?recs, w2))"
    using z [THEN conjunct2, THEN conjunct2, THEN conjunct2, THEN conjunct2, THEN conjunct1,
             THEN spec, THEN spec, of ?recs ?w1]
          call
    by simp
  then obtain t where t: "cache ?w1 ''api:/trends'' = Some \<lparr>data = ?recs, timestamp = t\<rparr>"
    and later: "\<And>w2. cache w2 ''api:/trends'' = cache ?w1 ''api:/trends''
                       \<and> now w2 - t \<le> CACHE_DURATION
                    \<Longrightarrow> fetchTrends (Some 0) w2 = (Inr ?recs, w2)"
    by blast
  from t stored have "t = 250" by simp
  then have again: "fetchTrends (Some 0) (?w1\<lparr>now := 300250\<rparr>)
                      = (Inr ?recs, ?w1\<lparr>now := 300250\<rparr>)"
    using later [of "?w1\<lparr>now := 300250\<rparr>"] ttl by simp
  from h first same stored ttl again show ?thesis
    by (intro conjI) simp_all
qed

text \<open>
  C10 as stated fails in two ways. In mock mode \<open>fetchTrends(0)\<close> returns what is cached
  under \<open>api:/trends\<close>, whatever its size: here the one record a backend had sent before
  the mock flag was switched on. And a payload of \<open>null\<close> that \<open>fetchTrends()\<close> cached is
  not seen by \<open>fetchTrends(0)\<close>, which goes to the network again.
\<close>

theorem cached_payload_outlives_mode_switch_counterexample:
  "shouldUseMocks switched_world
   \<and> fst (getCachedData ''api:/trends'' switched_world) = JArr [JStr ''ai'']
   \<and> fst (fetchTrends (Some 0) switched_world) = Inr (JArr [JStr ''ai''])
   \<and> length [JStr ''ai''] \<noteq> 3
   \<and> fst (fetchTrends None (net_world nw_null)) = Inr JNull
   \<and> cache (snd (fetchTrends None (net_world nw_null))) ''api:/trends''
       = Some \<lparr>data = JNull, timestamp = 100\<rparr>
   \<and> trace (snd (fetchTrends (Some 0) (snd (fetchTrends None (net_world nw_null)))))
       = [NetFetch ''https://api.test/trends'', CacheSet ''api:/trends'',
          NetFetch ''https://api.test/trends'', CacheSet ''api:/trends'']"
  by (simp add: switched_world_def query_defs client_defs retry_loop.simps world_defs
      nw_ok_def nw_null_def)

end
